theory Spec2Isabelle
  imports Main
begin

section \<open>Python values used by the account endpoints\<close>

text \<open>
  A Python \<open>str\<close> is a sequence of Unicode code points, so it is a list of naturals here
  (the messages of the stored procedures contain \<open>U+00E9\<close>, \<open>U+00F3\<close> and friends, and a
  console line even starts with \<open>U+1F534\<close>). \<open>ascii\<close> turns an ASCII literal into code
  points.
\<close>

type_synonym pystr = "nat list"

definition ascii :: "string \<Rightarrow> pystr" where
  "ascii s = map of_char s"

text \<open>\<open>s.startswith(p)\<close>.\<close>

definition startswith :: "pystr \<Rightarrow> pystr \<Rightarrow> bool" where
  "startswith s p = (take (length p) s = p)"

text \<open>\<open>str(n)\<close> for a list length (decimal digits, no sign).\<close>

fun str_nat :: "nat \<Rightarrow> pystr" where
  "str_nat n = (if n < 10 then [48 + n] else str_nat (n div 10) @ [48 + n mod 10])"

declare str_nat.simps [simp del]

text \<open>
  \<open>str.lower\<close> belongs to the Python runtime (full Unicode lower-casing, with its
  context rule for the Greek sigma); the services receive it as the argument \<open>lower\<close>,
  and every theorem below holds for whatever function the runtime supplies.
  \<open>lower_latin1\<close> is that function on strings whose code points are below 256, where
  lower-casing is code point by code point: \<open>A\<close>..\<open>Z\<close> and \<open>U+00C0\<close>..\<open>U+00DE\<close>
  (without the multiplication sign \<open>U+00D7\<close>) move up by 32. It serves to evaluate the
  model on concrete messages.
\<close>

definition lower_cp_latin1 :: "nat \<Rightarrow> nat" where
  "lower_cp_latin1 c =
     (if (65 \<le> c \<and> c \<le> 90) \<or> (192 \<le> c \<and> c \<le> 222 \<and> c \<noteq> 215) then c + 32 else c)"

definition lower_latin1 :: "pystr \<Rightarrow> pystr" where
  "lower_latin1 s = map lower_cp_latin1 s"

text \<open>
  The literal both services compare with (\<open>U+00E9\<close> then \<open>xito\<close>), and the prefix the
  update endpoint tests (\<open>Error: No se encontr\<close> then \<open>U+00F3\<close>).
\<close>

definition exito :: pystr where
  "exito = 233 # ascii ''xito''"

definition error_no_se_encontro :: pystr where
  "error_no_se_encontro = ascii ''Error: No se encontr'' @ [243]"

subsection \<open>Exceptions\<close>

text \<open>
  The exceptions that reach an \<open>except Exception\<close> clause, each with its \<open>str(e)\<close>.
  \<open>ValueError\<close> stands for the class and its subclasses (what \<open>except ValueError\<close>
  catches), \<open>OtherError\<close> for every other subclass of \<open>Exception\<close>, such as the
  driver's database errors.
\<close>

datatype exn =
    ValueError pystr
  | AttributeError pystr
  | Exception pystr
  | OtherError pystr

fun isinstance_ValueError :: "exn \<Rightarrow> bool" where
  "isinstance_ValueError (ValueError m) = True"
| "isinstance_ValueError (AttributeError m) = False"
| "isinstance_ValueError (Exception m) = False"
| "isinstance_ValueError (OtherError m) = False"

fun str_exn :: "exn \<Rightarrow> pystr" where
  "str_exn (ValueError m) = m"
| "str_exn (AttributeError m) = m"
| "str_exn (Exception m) = m"
| "str_exn (OtherError m) = m"

definition NoneType_has_no_lower :: pystr where
  "NoneType_has_no_lower = ascii (CHR 0x27 # ''NoneType'' @ CHR 0x27 # '' object has no attribute ''
     @ CHR 0x27 # ''lower'' @ [CHR 0x27])"

section \<open>Request schemas\<close>

text \<open>
  Modelled from the spec: \<open>app/schemas/account.py\<close> is not among the sources. The spec
  gives the creation request an account type, a currency, an initial balance and an owning
  user code, and the status update an account number, a new status code and a modifying
  user code; the field names are the ones the services read. The type of the balance is
  left open (\<open>'n\<close>): the service only passes it on.
\<close>

record 'n CuentaCreationData =
  TipoCta :: pystr
  Moneda :: pystr
  SaldoInicial :: 'n
  CodUsu :: pystr

record CuentaEstadoUpdate =
  nro_cta :: pystr
  nuevo_estado :: pystr
  cod_usu_modifica :: pystr

section \<open>The database session\<close>

text \<open>
  The statements the services send, with their bound parameters, and the two things a
  service does to a session: execute a statement, roll back.
\<close>

datatype 'n statement =
    CALL_sp_InsertarNuevaCuenta pystr pystr 'n pystr
  | SELECT_Out_NroCta_Out_Message
  | CALL_sp_ListarCuentas "pystr option"
  | CALL_sp_ActualizarEstadoCuenta pystr pystr pystr
  | SELECT_Out_Message

datatype 'n event = Execute "'n statement" | Rollback

text \<open>
  The row of \<open>SELECT @p_Out_NroCta AS NroCta, @p_Out_Message AS Mensaje\<close> and the row of
  \<open>SELECT @p_Out_Message AS Mensaje\<close>. A session variable is a text or \<open>NULL\<close>. The
  statement fixes the two aliases, so the access by attribute succeeds and the positional
  fallback of the creation service (columns 0 and 1, the same two values) is not taken.
\<close>

record OutNroCtaMensaje =
  NroCta :: "pystr option"
  Mensaje :: "pystr option"

datatype OutMensaje = OutMensaje (Mensaje_of: "pystr option")

text \<open>
  The stored procedures are outside the repository. A session holds the trail of what was
  done to it and, for each kind of statement, what the database answers once the statement
  is the last entry of the trail: an exception or a result. So the answer may depend on
  everything the session did before, parameters included.
\<close>

record ('n, 'row) Session =
  trail :: "'n event list"
  answer_call :: "'n event list \<Rightarrow> exn option"
  answer_out_NroCta_Mensaje :: "'n event list \<Rightarrow> exn + OutNroCtaMensaje option"
  answer_listar :: "'n event list \<Rightarrow> exn + 'row list"
  answer_out_Mensaje :: "'n event list \<Rightarrow> exn + OutMensaje option"

definition sent :: "('n, 'row) Session \<Rightarrow> 'n statement \<Rightarrow> ('n, 'row) Session" where
  "sent session q = session\<lparr>trail := trail session @ [Execute q]\<rparr>"

definition rollback :: "('n, 'row) Session \<Rightarrow> ('n, 'row) Session" where
  "rollback session = session\<lparr>trail := trail session @ [Rollback]\<rparr>"

text \<open>\<open>session.execute(q, params)\<close> for a \<open>CALL\<close> whose result set is not read.\<close>

definition execute_call ::
  "('n, 'row) Session \<Rightarrow> 'n statement \<Rightarrow> (exn + unit) \<times> ('n, 'row) Session" where
  "execute_call session q =
     (let s = sent session q in
      case answer_call s (trail s) of Some e \<Rightarrow> (Inl e, s) | None \<Rightarrow> (Inr (), s))"

text \<open>\<open>session.execute(text("SELECT ...")).first()\<close>: the first row, or \<open>None\<close>.\<close>

definition execute_first_NroCta_Mensaje ::
  "('n, 'row) Session \<Rightarrow> (exn + OutNroCtaMensaje option) \<times> ('n, 'row) Session" where
  "execute_first_NroCta_Mensaje session =
     (let s = sent session SELECT_Out_NroCta_Out_Message in
      (answer_out_NroCta_Mensaje s (trail s), s))"

definition execute_first_Mensaje ::
  "('n, 'row) Session \<Rightarrow> (exn + OutMensaje option) \<times> ('n, 'row) Session" where
  "execute_first_Mensaje session =
     (let s = sent session SELECT_Out_Message in (answer_out_Mensaje s (trail s), s))"

text \<open>\<open>session.execute(query, {"p_CodUsu": p}).mappings().all()\<close>.\<close>

definition execute_mappings_all ::
  "('n, 'row) Session \<Rightarrow> pystr option \<Rightarrow> (exn + 'row list) \<times> ('n, 'row) Session" where
  "execute_mappings_all session p =
     (let s = sent session (CALL_sp_ListarCuentas p) in (answer_listar s (trail s), s))"

section \<open>The service layer\<close>

text \<open>The dictionary \<open>{"NroCta": ..., "MensajeSP": ...}\<close> both services return.\<close>

record ResultadoSP =
  res_NroCta :: "pystr option"
  res_MensajeSP :: pystr

definition no_out_select :: pystr where
  "no_out_select = ascii ''La base de datos no devolvi'' @ [243]
     @ ascii '' el resultado del OUT SELECT.''"

definition no_mensaje_estado :: pystr where
  "no_mensaje_estado = ascii ''La base de datos no devolvi'' @ [243]
     @ ascii '' el mensaje de estado.''"

text \<open>
  The \<open>try\<close> block of \<open>insertar_nueva_cuenta_sp\<close>: the call, the read of the output
  variables, the check for a missing row, the test of the message. A \<open>NULL\<close> message has
  no \<open>lower\<close>: that is an \<open>AttributeError\<close>.
\<close>

definition insertar_nueva_cuenta_sp_try ::
  "(pystr \<Rightarrow> pystr) \<Rightarrow> ('n, 'row) Session \<Rightarrow> 'n CuentaCreationData
     \<Rightarrow> (exn + ResultadoSP) \<times> ('n, 'row) Session" where
  "insertar_nueva_cuenta_sp_try lower session datos =
     (case execute_call session
             (CALL_sp_InsertarNuevaCuenta (TipoCta datos) (Moneda datos)
                (SaldoInicial datos) (CodUsu datos)) of
        (Inl e, s1) \<Rightarrow> (Inl e, s1)
      | (Inr u, s1) \<Rightarrow>
          (case execute_first_NroCta_Mensaje s1 of
             (Inl e, s2) \<Rightarrow> (Inl e, s2)
           | (Inr None, s2) \<Rightarrow> (Inl (Exception no_out_select), s2)
           | (Inr (Some out_params_result), s2) \<Rightarrow>
               (case Mensaje out_params_result of
                  None \<Rightarrow> (Inl (AttributeError NoneType_has_no_lower), s2)
                | Some output_message \<Rightarrow>
                    if \<not> startswith (lower output_message) exito
                    then (Inl (ValueError output_message), s2)
                    else (Inr \<lparr>res_NroCta = NroCta out_params_result,
                               res_MensajeSP = output_message\<rparr>, s2))))"

text \<open>\<open>except Exception as e: session.rollback(); raise e\<close>, around a \<open>try\<close> block.\<close>

definition except_rollback_raise ::
  "(exn + 'a) \<times> ('n, 'row) Session \<Rightarrow> (exn + 'a) \<times> ('n, 'row) Session" where
  "except_rollback_raise r =
     (case r of (Inl e, s) \<Rightarrow> (Inl e, rollback s) | (Inr v, s) \<Rightarrow> (Inr v, s))"

definition insertar_nueva_cuenta_sp ::
  "(pystr \<Rightarrow> pystr) \<Rightarrow> ('n, 'row) Session \<Rightarrow> 'n CuentaCreationData
     \<Rightarrow> (exn + ResultadoSP) \<times> ('n, 'row) Session" where
  "insertar_nueva_cuenta_sp lower session datos =
     except_rollback_raise (insertar_nueva_cuenta_sp_try lower session datos)"

text \<open>
  The list comprehension \<open>[CuentaDetailsDTO.model_validate(row) for row in results]\<close>: the
  first row that does not validate raises. \<open>CuentaDetailsDTO\<close> is declared in the absent
  \<open>app/schemas/account.py\<close>, so its validation is the argument \<open>model_validate\<close>.
\<close>

fun validate_all :: "('row \<Rightarrow> exn + 'dto) \<Rightarrow> 'row list \<Rightarrow> exn + 'dto list" where
  "validate_all model_validate [] = Inr []"
| "validate_all model_validate (row # results) =
     (case model_validate row of
        Inl e \<Rightarrow> Inl e
      | Inr d \<Rightarrow>
          (case validate_all model_validate results of
             Inl e \<Rightarrow> Inl e
           | Inr ds \<Rightarrow> Inr (d # ds)))"

text \<open>
  \<open>cod_usu_input if cod_usu_input and cod_usu_input != '' else None\<close>: \<open>None\<close> and the
  empty string are falsy.
\<close>

definition truthy :: "pystr option \<Rightarrow> bool" where
  "truthy v = (case v of None \<Rightarrow> False | Some c \<Rightarrow> c \<noteq> [])"

definition clean_cod_usu :: "pystr option \<Rightarrow> pystr option" where
  "clean_cod_usu cod_usu_input =
     (if truthy cod_usu_input \<and> cod_usu_input \<noteq> Some [] then cod_usu_input else None)"

definition listar_cuentas_sp_try ::
  "('row \<Rightarrow> exn + 'dto) \<Rightarrow> ('n, 'row) Session \<Rightarrow> pystr option
     \<Rightarrow> (exn + 'dto list) \<times> ('n, 'row) Session" where
  "listar_cuentas_sp_try model_validate session p_cod_usu =
     (case execute_mappings_all session p_cod_usu of
        (Inl e, s1) \<Rightarrow> (Inl e, s1)
      | (Inr results, s1) \<Rightarrow> (validate_all model_validate results, s1))"

definition listar_cuentas_sp ::
  "('row \<Rightarrow> exn + 'dto) \<Rightarrow> ('n, 'row) Session \<Rightarrow> pystr option
     \<Rightarrow> (exn + 'dto list) \<times> ('n, 'row) Session" where
  "listar_cuentas_sp model_validate session cod_usu_input =
     (let p_cod_usu = clean_cod_usu cod_usu_input in
      except_rollback_raise (listar_cuentas_sp_try model_validate session p_cod_usu))"

text \<open>
  The \<open>try\<close> block of \<open>actualizar_estado_cuenta_sp\<close>. The procedure has one output
  variable, the message; the account number of the result is the one of the request.
\<close>

definition actualizar_estado_cuenta_sp_try ::
  "(pystr \<Rightarrow> pystr) \<Rightarrow> ('n, 'row) Session \<Rightarrow> CuentaEstadoUpdate
     \<Rightarrow> (exn + ResultadoSP) \<times> ('n, 'row) Session" where
  "actualizar_estado_cuenta_sp_try lower session datos =
     (case execute_call session
             (CALL_sp_ActualizarEstadoCuenta (nro_cta datos) (nuevo_estado datos)
                (cod_usu_modifica datos)) of
        (Inl e, s1) \<Rightarrow> (Inl e, s1)
      | (Inr u, s1) \<Rightarrow>
          (case execute_first_Mensaje s1 of
             (Inl e, s2) \<Rightarrow> (Inl e, s2)
           | (Inr None, s2) \<Rightarrow> (Inl (Exception no_mensaje_estado), s2)
           | (Inr (Some out_params_result), s2) \<Rightarrow>
               (case Mensaje_of out_params_result of
                  None \<Rightarrow> (Inl (AttributeError NoneType_has_no_lower), s2)
                | Some output_message \<Rightarrow>
                    if \<not> startswith (lower output_message) exito
                    then (Inl (ValueError output_message), s2)
                    else (Inr \<lparr>res_NroCta = Some (nro_cta datos),
                               res_MensajeSP = output_message\<rparr>, s2))))"

definition actualizar_estado_cuenta_sp ::
  "(pystr \<Rightarrow> pystr) \<Rightarrow> ('n, 'row) Session \<Rightarrow> CuentaEstadoUpdate
     \<Rightarrow> (exn + ResultadoSP) \<times> ('n, 'row) Session" where
  "actualizar_estado_cuenta_sp lower session datos =
     except_rollback_raise (actualizar_estado_cuenta_sp_try lower session datos)"

section \<open>The API layer\<close>

subsection \<open>The response envelope\<close>

text \<open>
  \<open>APIResponse\<close> of \<open>app/schemas/util.py\<close>; \<open>codigo\<close> and \<open>result\<close> default to \<open>None\<close>.
  The endpoints build it from values of the declared types (texts, a text or \<open>None\<close>, an
  integer status, a list), so its construction does not fail.
\<close>

record 'dto APIResponse =
  mensaje :: pystr
  codigo :: "pystr option"
  status_code :: int
  result :: "'dto list option"

text \<open>
  \<open>model_dump()\<close> gives the dictionary of the four fields, in the order of declaration.
\<close>

datatype 'dto pyval =
    PNone
  | PStr pystr
  | PInt int
  | PList "'dto list"
  | PDict "(string \<times> 'dto pyval) list"

definition model_dump :: "'dto APIResponse \<Rightarrow> (string \<times> 'dto pyval) list" where
  "model_dump r =
     [(''mensaje'', PStr (mensaje r)),
      (''codigo'', (case codigo r of None \<Rightarrow> PNone | Some c \<Rightarrow> PStr c)),
      (''status_code'', PInt (status_code r)),
      (''result'', (case result r of None \<Rightarrow> PNone | Some xs \<Rightarrow> PList xs))]"

text \<open>
  An endpoint either returns an \<open>APIResponse\<close> or raises
  \<open>HTTPException(status_code, detail)\<close> with a dumped \<open>APIResponse\<close> as the detail.
  What it writes to the console (\<open>print\<close>, \<open>traceback.print_exc\<close>) is kept apart
  from what goes to the client.
\<close>

datatype 'dto outcome =
    Returned "'dto APIResponse"
  | HTTPException int "(string \<times> 'dto pyval) list"

datatype console = Print pystr | Print_exc exn

definition HTTP_200_OK :: int where "HTTP_200_OK = 200"
definition HTTP_201_CREATED :: int where "HTTP_201_CREATED = 201"
definition HTTP_400_BAD_REQUEST :: int where "HTTP_400_BAD_REQUEST = 400"
definition HTTP_404_NOT_FOUND :: int where "HTTP_404_NOT_FOUND = 404"
definition HTTP_500_INTERNAL_SERVER_ERROR :: int where "HTTP_500_INTERNAL_SERVER_ERROR = 500"

text \<open>
  The status a route is declared with (\<open>status_code=...\<close> of the decorator) is the HTTP
  status of a returned value; a raised \<open>HTTPException\<close> carries its own.
\<close>

datatype operation = Crear | Listar | Actualizar

fun route_status_code :: "operation \<Rightarrow> int" where
  "route_status_code Crear = HTTP_201_CREATED"
| "route_status_code Listar = HTTP_200_OK"
| "route_status_code Actualizar = HTTP_200_OK"

fun http_status :: "operation \<Rightarrow> 'dto outcome \<Rightarrow> int" where
  "http_status op (Returned r) = route_status_code op"
| "http_status op (HTTPException c d) = c"

text \<open>
  The body of the response the framework writes. A returned model is serialised through
  the route's \<open>response_model=APIResponse\<close>: the four fields. A raised
  \<open>HTTPException\<close> goes to the framework's handler for that exception, which answers
  with the object \<open>{"detail": detail}\<close>; the sources install no other handler.
\<close>

fun response_body :: "'dto outcome \<Rightarrow> (string \<times> 'dto pyval) list" where
  "response_body (Returned r) = model_dump r"
| "response_body (HTTPException c d) = [(''detail'', PDict d)]"

subsection \<open>The fixed texts\<close>

definition error_interno :: pystr where
  "error_interno = ascii ''Ocurri'' @ [243] @ ascii '' un error interno del servidor.''"

definition error_interno_consulta :: pystr where
  "error_interno_consulta =
     ascii ''Ocurri'' @ [243] @ ascii '' un error interno del servidor durante la consulta.''"

definition aviso_crear :: pystr where
  "aviso_crear = [128308] @ ascii '' OCURRI'' @ [211] @ ascii '' UN ERROR INESPERADO:''"

definition aviso_listar :: pystr where
  "aviso_listar =
     [128308] @ ascii '' OCURRI'' @ [211] @ ascii '' UN ERROR INESPERADO AL LISTAR CUENTAS:''"

definition aviso_actualizar :: pystr where
  "aviso_actualizar = [128308] @ ascii '' ERROR INESPERADO AL ACTUALIZAR ESTADO:''"

text \<open>\<open>print(a, e)\<close> writes the two texts with a space between them.\<close>

definition print2 :: "pystr \<Rightarrow> exn \<Rightarrow> console" where
  "print2 a e = Print (a @ ascii '' '' @ str_exn e)"

subsection \<open>The three endpoints\<close>

text \<open>An optional text inside an f-string: \<open>None\<close> prints as \<open>None\<close>.\<close>

definition format_optional :: "pystr option \<Rightarrow> pystr" where
  "format_optional v = (case v of None \<Rightarrow> ascii ''None'' | Some c \<Rightarrow> c)"

definition crear_nueva_cuenta ::
  "(pystr \<Rightarrow> pystr) \<Rightarrow> ('n, 'row) Session \<Rightarrow> 'n CuentaCreationData
     \<Rightarrow> 'dto outcome \<times> ('n, 'row) Session \<times> console list" where
  "crear_nueva_cuenta lower session datos_cuenta =
     (case insertar_nueva_cuenta_sp lower session datos_cuenta of
        (Inr resultado_sp, s) \<Rightarrow>
          (Returned \<lparr>mensaje = res_MensajeSP resultado_sp,
                     codigo = res_NroCta resultado_sp,
                     status_code = HTTP_201_CREATED,
                     result = None\<rparr>, s, [])
      | (Inl e, s) \<Rightarrow>
          if isinstance_ValueError e
          then (HTTPException HTTP_400_BAD_REQUEST
                  (model_dump \<lparr>mensaje = str_exn e, codigo = Some [],
                               status_code = HTTP_400_BAD_REQUEST, result = None\<rparr>), s, [])
          else (HTTPException HTTP_500_INTERNAL_SERVER_ERROR
                  (model_dump \<lparr>mensaje = error_interno, codigo = Some [],
                               status_code = HTTP_500_INTERNAL_SERVER_ERROR, result = None\<rparr>),
                s, [print2 aviso_crear e, Print_exc e]))"

definition listar_cuentas ::
  "('row \<Rightarrow> exn + 'dto) \<Rightarrow> ('n, 'row) Session \<Rightarrow> pystr option
     \<Rightarrow> 'dto outcome \<times> ('n, 'row) Session \<times> console list" where
  "listar_cuentas model_validate session cod_usu =
     (case listar_cuentas_sp model_validate session cod_usu of
        (Inr lista_cuentas_dto, s) \<Rightarrow>
          if lista_cuentas_dto = [] \<and> cod_usu \<noteq> None \<and> cod_usu \<noteq> Some []
          then (Returned \<lparr>mensaje = ascii ''No se encontraron cuentas para el usuario: ''
                                       @ format_optional cod_usu @ ascii ''.'',
                           codigo = Some (ascii ''LIST-OK-EMPTY''),
                           status_code = HTTP_200_OK,
                           result = Some []\<rparr>, s, [])
          else (Returned \<lparr>mensaje = ascii ''Consulta exitosa. Se encontraron ''
                                       @ str_nat (length lista_cuentas_dto) @ ascii '' cuentas.'',
                           codigo = Some (ascii ''LIST-OK''),
                           status_code = HTTP_200_OK,
                           result = Some lista_cuentas_dto\<rparr>, s, [])
      | (Inl e, s) \<Rightarrow>
          (HTTPException HTTP_500_INTERNAL_SERVER_ERROR
             (model_dump \<lparr>mensaje = error_interno_consulta, codigo = Some (ascii ''SYS-500''),
                          status_code = HTTP_500_INTERNAL_SERVER_ERROR, result = None\<rparr>),
           s, [print2 aviso_listar e, Print_exc e]))"

definition actualizar_estado ::
  "(pystr \<Rightarrow> pystr) \<Rightarrow> ('n, 'row) Session \<Rightarrow> CuentaEstadoUpdate
     \<Rightarrow> 'dto outcome \<times> ('n, 'row) Session \<times> console list" where
  "actualizar_estado lower session datos_actualizacion =
     (case actualizar_estado_cuenta_sp lower session datos_actualizacion of
        (Inr resultado_sp, s) \<Rightarrow>
          (Returned \<lparr>mensaje = res_MensajeSP resultado_sp,
                     codigo = res_NroCta resultado_sp,
                     status_code = HTTP_200_OK,
                     result = None\<rparr>, s, [])
      | (Inl e, s) \<Rightarrow>
          if isinstance_ValueError e
          then (let error_message = str_exn e;
                    error_code = (if startswith error_message error_no_se_encontro
                                  then HTTP_404_NOT_FOUND else HTTP_400_BAD_REQUEST)
                in (HTTPException error_code
                      (model_dump \<lparr>mensaje = error_message, codigo = Some [],
                                   status_code = error_code, result = None\<rparr>), s, []))
          else (HTTPException HTTP_500_INTERNAL_SERVER_ERROR
                  (model_dump \<lparr>mensaje = error_interno, codigo = Some [],
                               status_code = HTTP_500_INTERNAL_SERVER_ERROR, result = None\<rparr>),
                s, [print2 aviso_actualizar e, Print_exc e]))"

text \<open>
  The answer of the creation and of the update endpoint to an exception that is not a
  \<open>ValueError\<close>: the same literal in both.
\<close>

definition respuesta_500 :: "'dto outcome" where
  "respuesta_500 = HTTPException 500
     (model_dump \<lparr>mensaje = error_interno, codigo = Some [], status_code = 500, result = None\<rparr>)"


subsection \<open>Reading an envelope\<close>

text \<open>
  The shape \<open>{mensaje: string, codigo: string|null, status_code: int, result: array|null}\<close>
  of a dumped envelope, and the status it states.
\<close>

fun is_str :: "'dto pyval \<Rightarrow> bool" where
  "is_str (PStr s) = True"
| "is_str PNone = False"
| "is_str (PInt n) = False"
| "is_str (PList xs) = False"
| "is_str (PDict kvs) = False"

fun is_int :: "'dto pyval \<Rightarrow> bool" where
  "is_int (PInt n) = True"
| "is_int PNone = False"
| "is_int (PStr s) = False"
| "is_int (PList xs) = False"
| "is_int (PDict kvs) = False"

fun is_str_or_null :: "'dto pyval \<Rightarrow> bool" where
  "is_str_or_null (PStr s) = True"
| "is_str_or_null PNone = True"
| "is_str_or_null (PInt n) = False"
| "is_str_or_null (PList xs) = False"
| "is_str_or_null (PDict kvs) = False"

fun is_array_or_null :: "'dto pyval \<Rightarrow> bool" where
  "is_array_or_null (PList xs) = True"
| "is_array_or_null PNone = True"
| "is_array_or_null (PInt n) = False"
| "is_array_or_null (PStr s) = False"
| "is_array_or_null (PDict kvs) = False"

definition is_envelope :: "(string \<times> 'dto pyval) list \<Rightarrow> bool" where
  "is_envelope d =
     (map fst d = [''mensaje'', ''codigo'', ''status_code'', ''result''] \<and>
      list_all2 (\<lambda>ty v. ty v) [is_str, is_str_or_null, is_int, is_array_or_null] (map snd d))"

definition envelope_status_code :: "(string \<times> 'dto pyval) list \<Rightarrow> int option" where
  "envelope_status_code d =
     (case map_of d ''status_code'' of Some (PInt n) \<Rightarrow> Some n | _ \<Rightarrow> None)"

text \<open>
  What a body holds under the key \<open>detail\<close>, when it is an object with that one key and
  an object as its value. A response is \<open>envelope_response\<close> when its body is an envelope
  that states the HTTP status of the response, \<open>detail_response\<close> when its body is not an
  envelope but holds, under \<open>detail\<close>, an envelope that states the HTTP status.
  \<open>responds op out ok errs\<close>: the response has the status \<open>ok\<close> and the first form, or
  one of the statuses \<open>errs\<close> and the second.
\<close>

definition detail_of :: "(string \<times> 'dto pyval) list \<Rightarrow> (string \<times> 'dto pyval) list option" where
  "detail_of body =
     (case body of
        [(k, PDict d)] \<Rightarrow> if k = ''detail'' then Some d else None
      | _ \<Rightarrow> None)"

definition envelope_response :: "operation \<Rightarrow> 'dto outcome \<Rightarrow> bool" where
  "envelope_response op out =
     (is_envelope (response_body out) \<and>
      envelope_status_code (response_body out) = Some (http_status op out))"

definition detail_response :: "operation \<Rightarrow> 'dto outcome \<Rightarrow> bool" where
  "detail_response op out =
     (\<not> is_envelope (response_body out) \<and>
      (case detail_of (response_body out) of
         None \<Rightarrow> False
       | Some d \<Rightarrow> is_envelope d \<and> envelope_status_code d = Some (http_status op out)))"

definition responds :: "operation \<Rightarrow> 'dto outcome \<Rightarrow> int \<Rightarrow> int list \<Rightarrow> bool" where
  "responds op out ok errs =
     ((http_status op out = ok \<and> envelope_response op out) \<or>
      (http_status op out \<in> set errs \<and> detail_response op out))"

subsection \<open>Reading a trail\<close>

text \<open>
  \<open>no_rollback before after\<close>: the trail \<open>after\<close> extends \<open>before\<close> by events none of
  which is a rollback. \<open>rollback_last before after\<close>: it extends \<open>before\<close> by such events
  and then one rollback, the last thing done.
\<close>

definition no_rollback :: "'n event list \<Rightarrow> 'n event list \<Rightarrow> bool" where
  "no_rollback before after =
     (take (length before) after = before \<and> Rollback \<notin> set (drop (length before) after))"

definition rollback_last :: "'n event list \<Rightarrow> 'n event list \<Rightarrow> bool" where
  "rollback_last before after =
     (after \<noteq> [] \<and> last after = Rollback \<and> no_rollback before (butlast after))"

section \<open>Example inputs\<close>

text \<open>
  A session whose database gives the same four answers whatever was sent, a creation
  request, a status update, and some messages a procedure may leave in its output variable.
\<close>

definition session_answering ::
  "exn option \<Rightarrow> (exn + OutNroCtaMensaje option) \<Rightarrow> (exn + pystr list)
     \<Rightarrow> (exn + OutMensaje option) \<Rightarrow> (int, pystr) Session" where
  "session_answering c o1 l o2 =
     \<lparr>trail = [], answer_call = (\<lambda>t. c), answer_out_NroCta_Mensaje = (\<lambda>t. o1),
      answer_listar = (\<lambda>t. l), answer_out_Mensaje = (\<lambda>t. o2)\<rparr>"

definition datos_ejemplo :: "int CuentaCreationData" where
  "datos_ejemplo =
     \<lparr>TipoCta = ascii ''AH'', Moneda = ascii ''PEN'', SaldoInicial = 100,
      CodUsu = ascii ''U001''\<rparr>"

definition llamada_ejemplo :: "int statement" where
  "llamada_ejemplo =
     CALL_sp_InsertarNuevaCuenta (TipoCta datos_ejemplo) (Moneda datos_ejemplo)
       (SaldoInicial datos_ejemplo) (CodUsu datos_ejemplo)"

definition actualizacion_ejemplo :: CuentaEstadoUpdate where
  "actualizacion_ejemplo =
     \<lparr>nro_cta = ascii ''0001'', nuevo_estado = ascii ''B'', cod_usu_modifica = ascii ''ADM''\<rparr>"

definition llamada_actualizar_ejemplo :: "int statement" where
  "llamada_actualizar_ejemplo =
     CALL_sp_ActualizarEstadoCuenta (nro_cta actualizacion_ejemplo)
       (nuevo_estado actualizacion_ejemplo) (cod_usu_modifica actualizacion_ejemplo)"

definition EXITO_creada :: pystr where
  "EXITO_creada = [201] @ ascii ''XITO: cuenta creada''"

definition fila_exito :: OutNroCtaMensaje where
  "fila_exito = \<lparr>NroCta = Some (ascii ''0001''), Mensaje = Some EXITO_creada\<rparr>"

definition error_usuario :: pystr where
  "error_usuario = ascii ''Error: el usuario no existe''"

definition fila_error :: OutNroCtaMensaje where
  "fila_error = \<lparr>NroCta = None, Mensaje = Some error_usuario\<rparr>"

definition no_encontrada :: pystr where
  "no_encontrada = error_no_se_encontro @ ascii '' la cuenta''"

definition estado_invalido :: pystr where
  "estado_invalido = ascii ''Error: estado no permitido''"

definition Exito_actualizada :: pystr where
  "Exito_actualizada = [201] @ ascii ''xito: estado actualizado''"

definition identity_validate :: "pystr \<Rightarrow> exn + pystr" where
  "identity_validate row = Inr row"

definition sesion_crear :: "OutNroCtaMensaje option \<Rightarrow> (int, pystr) Session" where
  "sesion_crear r = session_answering None (Inr r) (Inr []) (Inr None)"

definition sesion_actualizar :: "OutMensaje option \<Rightarrow> (int, pystr) Session" where
  "sesion_actualizar r = session_answering None (Inr None) (Inr []) (Inr r)"

definition sesion_listar :: "exn + pystr list \<Rightarrow> (int, pystr) Session" where
  "sesion_listar l = session_answering None (Inr None) l (Inr None)"

text \<open>Two driver errors, and a session in which every statement raises the given one.\<close>

definition conexion_perdida :: exn where
  "conexion_perdida = OtherError (ascii ''Lost connection to MySQL server during query'')"

definition interbloqueo :: exn where
  "interbloqueo = OtherError (ascii ''Deadlock found when trying to get lock'')"



definition sesion_falla :: "exn \<Rightarrow> (int, pystr) Session" where
  "sesion_falla e = session_answering (Some e) (Inr None) (Inl e) (Inr None)"

section \<open>Properties\<close>

subsection \<open>Sessions\<close>

lemma sent_fields [simp]:
  "trail (sent s q) = trail s @ [Execute q]"
  "answer_call (sent s q) = answer_call s"
  "answer_out_NroCta_Mensaje (sent s q) = answer_out_NroCta_Mensaje s"
  "answer_listar (sent s q) = answer_listar s"
  "answer_out_Mensaje (sent s q) = answer_out_Mensaje s"
  by (simp_all add: sent_def)

lemma rollback_fields [simp]:
  "trail (rollback s) = trail s @ [Rollback]"
  "answer_call (rollback s) = answer_call s"
  "answer_out_NroCta_Mensaje (rollback s) = answer_out_NroCta_Mensaje s"
  "answer_listar (rollback s) = answer_listar s"
  "answer_out_Mensaje (rollback s) = answer_out_Mensaje s"
  by (simp_all add: rollback_def)

lemma session_answering_fields [simp]:
  "trail (session_answering c o1 l o2) = []"
  "answer_call (session_answering c o1 l o2) t = c"
  "answer_out_NroCta_Mensaje (session_answering c o1 l o2) t = o1"
  "answer_listar (session_answering c o1 l o2) t = l"
  "answer_out_Mensaje (session_answering c o1 l o2) t = o2"
  by (simp_all add: session_answering_def)

lemma execute_call_eq:
  "execute_call s q =
     ((case answer_call s (trail s @ [Execute q]) of Some e \<Rightarrow> Inl e | None \<Rightarrow> Inr ()),
      sent s q)"
  by (simp add: execute_call_def Let_def split: option.split)

lemma execute_first_NroCta_Mensaje_eq:
  "execute_first_NroCta_Mensaje s =
     (answer_out_NroCta_Mensaje s (trail s @ [Execute SELECT_Out_NroCta_Out_Message]),
      sent s SELECT_Out_NroCta_Out_Message)"
  by (simp add: execute_first_NroCta_Mensaje_def Let_def)

lemma execute_first_Mensaje_eq:
  "execute_first_Mensaje s =
     (answer_out_Mensaje s (trail s @ [Execute SELECT_Out_Message]), sent s SELECT_Out_Message)"
  by (simp add: execute_first_Mensaje_def Let_def)

lemma execute_mappings_all_eq:
  "execute_mappings_all s p =
     (answer_listar s (trail s @ [Execute (CALL_sp_ListarCuentas p)]),
      sent s (CALL_sp_ListarCuentas p))"
  by (simp add: execute_mappings_all_def Let_def)

subsection \<open>Texts\<close>

lemma exito_code_points: "exito = [233, 120, 105, 116, 111]"
  by (simp add: exito_def ascii_def)

lemma startswith_lower_latin1_exito:
  assumes "c0 = 201 \<or> c0 = 233" "c1 = 88 \<or> c1 = 120" "c2 = 73 \<or> c2 = 105"
    "c3 = 84 \<or> c3 = 116" "c4 = 79 \<or> c4 = 111"
  shows "startswith (lower_latin1 (c0 # c1 # c2 # c3 # c4 # rest)) exito"
proof -
  have "lower_cp_latin1 c0 = 233" using assms(1) by (auto simp: lower_cp_latin1_def)
  moreover have "lower_cp_latin1 c1 = 120" using assms(2) by (auto simp: lower_cp_latin1_def)
  moreover have "lower_cp_latin1 c2 = 105" using assms(3) by (auto simp: lower_cp_latin1_def)
  moreover have "lower_cp_latin1 c3 = 116" using assms(4) by (auto simp: lower_cp_latin1_def)
  moreover have "lower_cp_latin1 c4 = 111" using assms(5) by (auto simp: lower_cp_latin1_def)
  ultimately show ?thesis
    by (simp add: startswith_def lower_latin1_def exito_code_points)
qed

lemma EXITO_creada_is_exito: "startswith (lower_latin1 EXITO_creada) exito"
  unfolding EXITO_creada_def ascii_def
  by (simp add: startswith_lower_latin1_exito)

lemma Exito_actualizada_is_exito: "startswith (lower_latin1 Exito_actualizada) exito"
  unfolding Exito_actualizada_def ascii_def
  by (simp add: startswith_lower_latin1_exito)

lemma error_usuario_not_exito: "\<not> startswith (lower_latin1 error_usuario) exito"
  by (simp add: error_usuario_def ascii_def startswith_def lower_latin1_def exito_code_points
      lower_cp_latin1_def)

lemma no_encontrada_not_exito: "\<not> startswith (lower_latin1 no_encontrada) exito"
  by (simp add: no_encontrada_def error_no_se_encontro_def ascii_def startswith_def
      lower_latin1_def exito_code_points lower_cp_latin1_def)

lemma estado_invalido_not_exito: "\<not> startswith (lower_latin1 estado_invalido) exito"
  by (simp add: estado_invalido_def ascii_def startswith_def lower_latin1_def exito_code_points
      lower_cp_latin1_def)

lemma no_encontrada_prefix: "startswith no_encontrada error_no_se_encontro"
  by (simp add: no_encontrada_def startswith_def)

lemma estado_invalido_prefix: "\<not> startswith estado_invalido error_no_se_encontro"
  by (simp add: estado_invalido_def error_no_se_encontro_def ascii_def startswith_def)

lemma error_usuario_prefix: "\<not> startswith error_usuario error_no_se_encontro"
  by (simp add: error_usuario_def error_no_se_encontro_def ascii_def startswith_def)

lemma sesion_fields [simp]:
  "trail (sesion_crear r) = []"
  "answer_call (sesion_crear r) t = None"
  "answer_out_NroCta_Mensaje (sesion_crear r) t = Inr r"
  "trail (sesion_actualizar u) = []"
  "answer_call (sesion_actualizar u) t = None"
  "answer_out_Mensaje (sesion_actualizar u) t = Inr u"
  "trail (sesion_listar l) = []"
  "answer_listar (sesion_listar l) t = l"
  by (simp_all add: sesion_crear_def sesion_actualizar_def sesion_listar_def)

subsection \<open>Creating an account\<close>

lemma insertar_try_mensaje:
  assumes call: "execute_call session (CALL_sp_InsertarNuevaCuenta (TipoCta datos) (Moneda datos)
                   (SaldoInicial datos) (CodUsu datos)) = (Inr (), s1)"
      and out: "execute_first_NroCta_Mensaje s1 = (Inr (Some row), s2)"
      and msg: "Mensaje row = Some msg"
  shows "insertar_nueva_cuenta_sp_try lower session datos =
           (if \<not> startswith (lower msg) exito then (Inl (ValueError msg), s2)
            else (Inr \<lparr>res_NroCta = NroCta row, res_MensajeSP = msg\<rparr>, s2))"
  by (simp add: insertar_nueva_cuenta_sp_try_def call out msg)

lemma ejemplo_call:
  "execute_call (sesion_crear r) llamada_ejemplo = (Inr (), sent (sesion_crear r) llamada_ejemplo)"
  by (simp add: execute_call_eq)

lemma ejemplo_out:
  "execute_first_NroCta_Mensaje (sent (sesion_crear r) llamada_ejemplo) =
     (Inr r, sent (sent (sesion_crear r) llamada_ejemplo) SELECT_Out_NroCta_Out_Message)"
  by (simp add: execute_first_NroCta_Mensaje_eq)

text \<open>
  C1. Take a creation call in which the \<open>CALL\<close> raises nothing and the read of the output
  variables gives a row with message \<open>msg\<close>. If the lower-cased message starts with the
  literal of the service, the endpoint returns, under the route's status 201, the envelope
  with \<open>mensaje = msg\<close> and \<open>codigo\<close> the account number of that row; and the service
  succeeds exactly when the lower-cased message starts with that literal. Both hold for
  whatever lower-casing the runtime supplies. With the lower-casing of Latin-1, a message
  whose first five code points spell the word in any of the 32 mixtures of upper and lower
  case is answered that way.
\<close>

theorem crear_exito_201:
  assumes call: "execute_call session (CALL_sp_InsertarNuevaCuenta (TipoCta datos) (Moneda datos)
                   (SaldoInicial datos) (CodUsu datos)) = (Inr (), s1)"
      and out: "execute_first_NroCta_Mensaje s1 = (Inr (Some row), s2)"
      and msg: "Mensaje row = Some msg"
  shows "(startswith (lower msg) exito \<longrightarrow>
            crear_nueva_cuenta lower session datos =
              (Returned \<lparr>mensaje = msg, codigo = NroCta row, status_code = 201, result = None\<rparr>,
               s2, [])
          \<and> http_status Crear (fst (crear_nueva_cuenta lower session datos)) = 201)
       \<and> ((\<exists>r. fst (insertar_nueva_cuenta_sp lower session datos) = Inr r)
            \<longleftrightarrow> startswith (lower msg) exito)
       \<and> (msg = c0 # c1 # c2 # c3 # c4 # rest
            \<and> c0 \<in> {201, 233} \<and> c1 \<in> {88, 120} \<and> c2 \<in> {73, 105}
            \<and> c3 \<in> {84, 116} \<and> c4 \<in> {79, 111}
          \<longrightarrow> crear_nueva_cuenta lower_latin1 session datos =
              (Returned \<lparr>mensaje = msg, codigo = NroCta row, status_code = 201, result = None\<rparr>,
               s2, []))"
proof -
  have general: "\<And>lower. startswith (lower msg) exito \<Longrightarrow>
      crear_nueva_cuenta lower session datos =
        (Returned \<lparr>mensaje = msg, codigo = NroCta row, status_code = 201, result = None\<rparr>,
         s2, [])"
    by (simp add: crear_nueva_cuenta_def insertar_nueva_cuenta_sp_def
        insertar_try_mensaje [OF call out msg] except_rollback_raise_def HTTP_201_CREATED_def)
  have status: "startswith (lower msg) exito \<Longrightarrow>
      http_status Crear (fst (crear_nueva_cuenta lower session datos)) = 201"
    by (simp add: crear_nueva_cuenta_def insertar_nueva_cuenta_sp_def
        insertar_try_mensaje [OF call out msg] except_rollback_raise_def HTTP_201_CREATED_def)
  have iff: "(\<exists>r. fst (insertar_nueva_cuenta_sp lower session datos) = Inr r)
            \<longleftrightarrow> startswith (lower msg) exito"
    by (simp add: insertar_nueva_cuenta_sp_def insertar_try_mensaje [OF call out msg]
        except_rollback_raise_def)
  have cased: "msg = c0 # c1 # c2 # c3 # c4 # rest
            \<and> c0 \<in> {201, 233} \<and> c1 \<in> {88, 120} \<and> c2 \<in> {73, 105}
            \<and> c3 \<in> {84, 116} \<and> c4 \<in> {79, 111}
          \<longrightarrow> startswith (lower_latin1 msg) exito"
    using startswith_lower_latin1_exito [of c0 c1 c2 c3 c4 rest] by auto
  from general [of lower] general [of lower_latin1] status iff cased show ?thesis
    by blast
qed

theorem crear_exito_201_witness:
  "execute_call (sesion_crear (Some fila_exito)) llamada_ejemplo
     = (Inr (), sent (sesion_crear (Some fila_exito)) llamada_ejemplo)
   \<and> execute_first_NroCta_Mensaje (sent (sesion_crear (Some fila_exito)) llamada_ejemplo)
     = (Inr (Some fila_exito),
        sent (sent (sesion_crear (Some fila_exito)) llamada_ejemplo)
          SELECT_Out_NroCta_Out_Message)
   \<and> Mensaje fila_exito = Some EXITO_creada
   \<and> startswith (lower_latin1 EXITO_creada) exito
   \<and> fst (crear_nueva_cuenta lower_latin1 (sesion_crear (Some fila_exito)) datos_ejemplo)
     = (Returned \<lparr>mensaje = EXITO_creada, codigo = Some (ascii ''0001''), status_code = 201,
          result = None\<rparr> :: pystr outcome)"
proof -
  let ?s = "sesion_crear (Some fila_exito)"
  note h1 = ejemplo_call [of "Some fila_exito"]
  note h2 = ejemplo_out [of "Some fila_exito"]
  have h3: "Mensaje fila_exito = Some EXITO_creada"
    by (simp add: fila_exito_def)
  have h4: "NroCta fila_exito = Some (ascii ''0001'')"
    by (simp add: fila_exito_def)
  have "crear_nueva_cuenta lower_latin1 ?s datos_ejemplo =
          (Returned \<lparr>mensaje = EXITO_creada, codigo = NroCta fila_exito, status_code = 201,
             result = None\<rparr> :: pystr outcome,
           sent (sent ?s llamada_ejemplo) SELECT_Out_NroCta_Out_Message, [])"
    using crear_exito_201 [OF h1 [unfolded llamada_ejemplo_def] h2 [unfolded llamada_ejemplo_def] h3,
        of lower_latin1] EXITO_creada_is_exito
    unfolding llamada_ejemplo_def by blast
  then have "fst (crear_nueva_cuenta lower_latin1 ?s datos_ejemplo) =
          (Returned \<lparr>mensaje = EXITO_creada, codigo = Some (ascii ''0001''), status_code = 201,
             result = None\<rparr> :: pystr outcome)"
    by (simp add: h4)
  with h1 h2 h3 EXITO_creada_is_exito show ?thesis
    by blast
qed

text \<open>
  C2. In a creation call whose procedure message \<open>msg\<close> does not pass the test (its
  lower-cased form does not start with the literal), the service rolls back and raises
  \<open>ValueError(msg)\<close>, and the endpoint raises the HTTP exception 400 whose envelope has
  \<open>mensaje = msg\<close>. A \<open>NULL\<close> message is not a text and is no part of this statement.
\<close>

theorem crear_no_exito_400:
  assumes call: "execute_call session (CALL_sp_InsertarNuevaCuenta (TipoCta datos) (Moneda datos)
                   (SaldoInicial datos) (CodUsu datos)) = (Inr (), s1)"
      and out: "execute_first_NroCta_Mensaje s1 = (Inr (Some row), s2)"
      and msg: "Mensaje row = Some msg"
      and no_exito: "\<not> startswith (lower msg) exito"
  shows "insertar_nueva_cuenta_sp lower session datos = (Inl (ValueError msg), rollback s2)
       \<and> crear_nueva_cuenta lower session datos =
           (HTTPException 400
              (model_dump \<lparr>mensaje = msg, codigo = Some [], status_code = 400, result = None\<rparr>),
            rollback s2, [])
       \<and> http_status Crear (fst (crear_nueva_cuenta lower session datos)) = 400"
  by (simp add: crear_nueva_cuenta_def insertar_nueva_cuenta_sp_def
      insertar_try_mensaje [OF call out msg] no_exito except_rollback_raise_def
      HTTP_400_BAD_REQUEST_def)

theorem crear_no_exito_400_witness:
  "execute_call (sesion_crear (Some fila_error)) llamada_ejemplo
     = (Inr (), sent (sesion_crear (Some fila_error)) llamada_ejemplo)
   \<and> execute_first_NroCta_Mensaje (sent (sesion_crear (Some fila_error)) llamada_ejemplo)
     = (Inr (Some fila_error),
        sent (sent (sesion_crear (Some fila_error)) llamada_ejemplo)
          SELECT_Out_NroCta_Out_Message)
   \<and> Mensaje fila_error = Some error_usuario
   \<and> \<not> startswith (lower_latin1 error_usuario) exito
   \<and> fst (insertar_nueva_cuenta_sp lower_latin1 (sesion_crear (Some fila_error)) datos_ejemplo)
     = Inl (ValueError error_usuario)
   \<and> fst (crear_nueva_cuenta lower_latin1 (sesion_crear (Some fila_error)) datos_ejemplo)
     = (HTTPException 400
          [(''mensaje'', PStr error_usuario), (''codigo'', PStr []),
           (''status_code'', PInt 400), (''result'', PNone)] :: pystr outcome)"
proof -
  let ?s = "sesion_crear (Some fila_error)"
  note h1 = ejemplo_call [of "Some fila_error"]
  note h2 = ejemplo_out [of "Some fila_error"]
  have h3: "Mensaje fila_error = Some error_usuario"
    by (simp add: fila_error_def)
  note t = crear_no_exito_400 [OF h1 [unfolded llamada_ejemplo_def]
      h2 [unfolded llamada_ejemplo_def] h3, of lower_latin1, OF error_usuario_not_exito]
  have a: "fst (insertar_nueva_cuenta_sp lower_latin1 ?s datos_ejemplo)
             = Inl (ValueError error_usuario)"
    using t [THEN conjunct1] by simp
  have "crear_nueva_cuenta lower_latin1 ?s datos_ejemplo =
           (HTTPException 400
              (model_dump \<lparr>mensaje = error_usuario, codigo = Some [], status_code = 400,
                 result = None\<rparr>) :: pystr outcome,
            rollback (sent (sent ?s llamada_ejemplo) SELECT_Out_NroCta_Out_Message), [])"
    unfolding llamada_ejemplo_def by (rule t [THEN conjunct2, THEN conjunct1])
  then have b: "fst (crear_nueva_cuenta lower_latin1 ?s datos_ejemplo)
     = (HTTPException 400
          [(''mensaje'', PStr error_usuario), (''codigo'', PStr []),
           (''status_code'', PInt 400), (''result'', PNone)] :: pystr outcome)"
    by (simp add: model_dump_def)
  from h1 h2 h3 error_usuario_not_exito a b show ?thesis
    by blast
qed

subsection \<open>Updating the status of an account\<close>

lemma actualizar_try_mensaje:
  assumes call: "execute_call session (CALL_sp_ActualizarEstadoCuenta (nro_cta datos)
                   (nuevo_estado datos) (cod_usu_modifica datos)) = (Inr (), s1)"
      and out: "execute_first_Mensaje s1 = (Inr (Some row), s2)"
      and msg: "Mensaje_of row = Some msg"
  shows "actualizar_estado_cuenta_sp_try lower session datos =
           (if \<not> startswith (lower msg) exito then (Inl (ValueError msg), s2)
            else (Inr \<lparr>res_NroCta = Some (nro_cta datos), res_MensajeSP = msg\<rparr>, s2))"
  by (simp add: actualizar_estado_cuenta_sp_try_def call out msg)

lemma ejemplo_call_actualizar:
  "execute_call (sesion_actualizar r) llamada_actualizar_ejemplo =
     (Inr (), sent (sesion_actualizar r) llamada_actualizar_ejemplo)"
  by (simp add: execute_call_eq)

lemma ejemplo_out_actualizar:
  "execute_first_Mensaje (sent (sesion_actualizar r) llamada_actualizar_ejemplo) =
     (Inr r, sent (sent (sesion_actualizar r) llamada_actualizar_ejemplo) SELECT_Out_Message)"
  by (simp add: execute_first_Mensaje_eq)

text \<open>
  C3. In a status update whose procedure message \<open>msg\<close> does not pass the test, the
  endpoint raises the HTTP exception 404 when \<open>msg\<close> starts with
  \<open>error_no_se_encontro\<close> (compared as it is, no lower-casing), and 400 otherwise; the
  envelope has \<open>mensaje = msg\<close> and states the same status.
\<close>

theorem actualizar_no_exito_404_400:
  assumes call: "execute_call session (CALL_sp_ActualizarEstadoCuenta (nro_cta datos)
                   (nuevo_estado datos) (cod_usu_modifica datos)) = (Inr (), s1)"
      and out: "execute_first_Mensaje s1 = (Inr (Some row), s2)"
      and msg: "Mensaje_of row = Some msg"
      and no_exito: "\<not> startswith (lower msg) exito"
  shows "actualizar_estado lower session datos =
           (if startswith msg error_no_se_encontro
            then (HTTPException 404
                   (model_dump \<lparr>mensaje = msg, codigo = Some [], status_code = 404,
                      result = None\<rparr>), rollback s2, [])
            else (HTTPException 400
                   (model_dump \<lparr>mensaje = msg, codigo = Some [], status_code = 400,
                      result = None\<rparr>), rollback s2, []))
       \<and> http_status Actualizar (fst (actualizar_estado lower session datos)) =
           (if startswith msg error_no_se_encontro then 404 else 400)"
  by (simp add: actualizar_estado_def actualizar_estado_cuenta_sp_def
      actualizar_try_mensaje [OF call out msg] no_exito except_rollback_raise_def
      HTTP_400_BAD_REQUEST_def HTTP_404_NOT_FOUND_def Let_def)

theorem actualizar_no_exito_404_400_witness:
  "execute_call (sesion_actualizar (Some (OutMensaje (Some no_encontrada))))
       llamada_actualizar_ejemplo
     = (Inr (), sent (sesion_actualizar (Some (OutMensaje (Some no_encontrada))))
         llamada_actualizar_ejemplo)
   \<and> execute_first_Mensaje
       (sent (sesion_actualizar (Some (OutMensaje (Some no_encontrada))))
          llamada_actualizar_ejemplo)
     = (Inr (Some (OutMensaje (Some no_encontrada))),
        sent (sent (sesion_actualizar (Some (OutMensaje (Some no_encontrada))))
          llamada_actualizar_ejemplo) SELECT_Out_Message)
   \<and> \<not> startswith (lower_latin1 no_encontrada) exito
   \<and> startswith no_encontrada error_no_se_encontro
   \<and> fst (actualizar_estado lower_latin1
        (sesion_actualizar (Some (OutMensaje (Some no_encontrada)))) actualizacion_ejemplo)
     = (HTTPException 404
          [(''mensaje'', PStr no_encontrada), (''codigo'', PStr []),
           (''status_code'', PInt 404), (''result'', PNone)] :: pystr outcome)
   \<and> \<not> startswith (lower_latin1 estado_invalido) exito
   \<and> \<not> startswith estado_invalido error_no_se_encontro
   \<and> fst (actualizar_estado lower_latin1
        (sesion_actualizar (Some (OutMensaje (Some estado_invalido)))) actualizacion_ejemplo)
     = (HTTPException 400
          [(''mensaje'', PStr estado_invalido), (''codigo'', PStr []),
           (''status_code'', PInt 400), (''result'', PNone)] :: pystr outcome)"
proof -
  let ?r = "Some (OutMensaje (Some no_encontrada))"
  let ?r' = "Some (OutMensaje (Some estado_invalido))"
  note h1 = ejemplo_call_actualizar [of ?r]
  note h2 = ejemplo_out_actualizar [of ?r]
  note t = actualizar_no_exito_404_400 [OF h1 [unfolded llamada_actualizar_ejemplo_def]
      h2 [unfolded llamada_actualizar_ejemplo_def], of no_encontrada lower_latin1,
      OF _ no_encontrada_not_exito, simplified, THEN conjunct1]
  note t' = actualizar_no_exito_404_400 [OF
      ejemplo_call_actualizar [of ?r', unfolded llamada_actualizar_ejemplo_def]
      ejemplo_out_actualizar [of ?r', unfolded llamada_actualizar_ejemplo_def],
      of estado_invalido lower_latin1, OF _ estado_invalido_not_exito, simplified,
      THEN conjunct1]
  have a: "fst (actualizar_estado lower_latin1 (sesion_actualizar ?r) actualizacion_ejemplo)
     = (HTTPException 404
          [(''mensaje'', PStr no_encontrada), (''codigo'', PStr []),
           (''status_code'', PInt 404), (''result'', PNone)] :: pystr outcome)"
    by (simp add: t no_encontrada_prefix model_dump_def)
  have b: "fst (actualizar_estado lower_latin1 (sesion_actualizar ?r') actualizacion_ejemplo)
     = (HTTPException 400
          [(''mensaje'', PStr estado_invalido), (''codigo'', PStr []),
           (''status_code'', PInt 400), (''result'', PNone)] :: pystr outcome)"
    by (simp add: t' estado_invalido_prefix model_dump_def)
  from h1 h2 a b no_encontrada_not_exito no_encontrada_prefix estado_invalido_not_exito
    estado_invalido_prefix
  show ?thesis by blast
qed

lemma actualizar_sp_result:
  "fst (actualizar_estado_cuenta_sp lower session datos) = Inr r
     \<Longrightarrow> res_NroCta r = Some (nro_cta datos)"
  by (auto simp: actualizar_estado_cuenta_sp_def actualizar_estado_cuenta_sp_try_def
      except_rollback_raise_def execute_call_eq execute_first_Mensaje_eq
      split: option.splits sum.splits if_splits)

text \<open>
  C10. Whenever the update endpoint returns an envelope, its \<open>codigo\<close> is the account
  number of the request, whatever the database answered; and when the procedure message
  passes the test, the returned envelope has that message, that account number, status 200.
\<close>

theorem actualizar_codigo_es_nro_cta:
  "(\<forall>r. fst (actualizar_estado lower session datos) = Returned r
        \<longrightarrow> codigo r = Some (nro_cta datos))
   \<and> (execute_call session (CALL_sp_ActualizarEstadoCuenta (nro_cta datos)
           (nuevo_estado datos) (cod_usu_modifica datos)) = (Inr (), s1)
        \<and> execute_first_Mensaje s1 = (Inr (Some row), s2)
        \<and> Mensaje_of row = Some msg
        \<and> startswith (lower msg) exito
      \<longrightarrow> actualizar_estado lower session datos =
            (Returned \<lparr>mensaje = msg, codigo = Some (nro_cta datos), status_code = 200,
               result = None\<rparr>, s2, []))"
proof (intro conjI allI impI)
  fix r :: "'a APIResponse"
  assume ret: "fst (actualizar_estado lower session datos) = Returned r"
  obtain res s where sp: "actualizar_estado_cuenta_sp lower session datos = (res, s)"
    by (cases "actualizar_estado_cuenta_sp lower session datos")
  show "codigo r = Some (nro_cta datos)"
  proof (cases res)
    case (Inl e)
    with ret sp show ?thesis
      by (simp add: actualizar_estado_def Let_def split: if_splits)
  next
    case (Inr v)
    with sp have "res_NroCta v = Some (nro_cta datos)"
      using actualizar_sp_result [of lower session datos v] by simp
    with ret sp Inr show ?thesis
      by (auto simp: actualizar_estado_def)
  qed
next
  assume h: "execute_call session (CALL_sp_ActualizarEstadoCuenta (nro_cta datos)
           (nuevo_estado datos) (cod_usu_modifica datos)) = (Inr (), s1)
        \<and> execute_first_Mensaje s1 = (Inr (Some row), s2)
        \<and> Mensaje_of row = Some msg
        \<and> startswith (lower msg) exito"
  then show "actualizar_estado lower session datos =
            (Returned \<lparr>mensaje = msg, codigo = Some (nro_cta datos), status_code = 200,
               result = None\<rparr>, s2, [])"
    by (simp add: actualizar_estado_def actualizar_estado_cuenta_sp_def
        actualizar_try_mensaje [of session datos s1 row s2 msg lower]
        except_rollback_raise_def HTTP_200_OK_def)
qed

theorem actualizar_codigo_es_nro_cta_witness:
  "execute_call (sesion_actualizar (Some (OutMensaje (Some Exito_actualizada))))
       llamada_actualizar_ejemplo
     = (Inr (), sent (sesion_actualizar (Some (OutMensaje (Some Exito_actualizada))))
         llamada_actualizar_ejemplo)
   \<and> execute_first_Mensaje
       (sent (sesion_actualizar (Some (OutMensaje (Some Exito_actualizada))))
          llamada_actualizar_ejemplo)
     = (Inr (Some (OutMensaje (Some Exito_actualizada))),
        sent (sent (sesion_actualizar (Some (OutMensaje (Some Exito_actualizada))))
          llamada_actualizar_ejemplo) SELECT_Out_Message)
   \<and> startswith (lower_latin1 Exito_actualizada) exito
   \<and> fst (actualizar_estado lower_latin1
        (sesion_actualizar (Some (OutMensaje (Some Exito_actualizada)))) actualizacion_ejemplo)
     = (Returned \<lparr>mensaje = Exito_actualizada, codigo = Some (ascii ''0001''),
          status_code = 200, result = None\<rparr> :: pystr outcome)"
proof -
  let ?r = "Some (OutMensaje (Some Exito_actualizada))"
  note h1 = ejemplo_call_actualizar [of ?r]
  note h2 = ejemplo_out_actualizar [of ?r]
  have h3: "Mensaje_of (OutMensaje (Some Exito_actualizada)) = Some Exito_actualizada"
    by simp
  note t = actualizar_codigo_es_nro_cta [where lower = lower_latin1
      and msg = Exito_actualizada, THEN conjunct2, rule_format,
      OF conjI [OF h1 [unfolded llamada_actualizar_ejemplo_def]
           conjI [OF h2 [unfolded llamada_actualizar_ejemplo_def]
             conjI [OF h3 Exito_actualizada_is_exito]]]]
  have n: "nro_cta actualizacion_ejemplo = ascii ''0001''"
    by (simp add: actualizacion_ejemplo_def)
  have "fst (actualizar_estado lower_latin1 (sesion_actualizar ?r) actualizacion_ejemplo)
     = (Returned \<lparr>mensaje = Exito_actualizada, codigo = Some (ascii ''0001''),
          status_code = 200, result = None\<rparr> :: pystr outcome)"
    by (simp add: t n)
  with h1 h2 Exito_actualizada_is_exito show ?thesis by blast
qed

subsection \<open>A missing row of output variables\<close>

text \<open>
  C9. When the \<open>CALL\<close> raises nothing and the read of the output variables gives no row,
  the creation service and the update service roll back and raise an \<open>Exception\<close> that is
  not a \<open>ValueError\<close>, and the endpoint answers with status 500 (so neither 400 nor 404).
\<close>

theorem sin_fila_de_salida_500:
  "(execute_call session (CALL_sp_InsertarNuevaCuenta (TipoCta datos) (Moneda datos)
        (SaldoInicial datos) (CodUsu datos)) = (Inr (), s1)
      \<and> execute_first_NroCta_Mensaje s1 = (Inr None, s2)
    \<longrightarrow> insertar_nueva_cuenta_sp lower session datos
          = (Inl (Exception no_out_select), rollback s2)
        \<and> \<not> isinstance_ValueError (Exception no_out_select)
        \<and> fst (crear_nueva_cuenta lower session datos) = respuesta_500
        \<and> http_status Crear (fst (crear_nueva_cuenta lower session datos)) = 500)
   \<and> (execute_call session' (CALL_sp_ActualizarEstadoCuenta (nro_cta datos')
        (nuevo_estado datos') (cod_usu_modifica datos')) = (Inr (), s1')
      \<and> execute_first_Mensaje s1' = (Inr None, s2')
    \<longrightarrow> actualizar_estado_cuenta_sp lower session' datos'
          = (Inl (Exception no_mensaje_estado), rollback s2')
        \<and> \<not> isinstance_ValueError (Exception no_mensaje_estado)
        \<and> fst (actualizar_estado lower session' datos') = respuesta_500
        \<and> http_status Actualizar (fst (actualizar_estado lower session' datos')) = 500)"
  by (simp add: crear_nueva_cuenta_def insertar_nueva_cuenta_sp_def
      insertar_nueva_cuenta_sp_try_def actualizar_estado_def actualizar_estado_cuenta_sp_def
      actualizar_estado_cuenta_sp_try_def except_rollback_raise_def respuesta_500_def
      HTTP_500_INTERNAL_SERVER_ERROR_def)

theorem sin_fila_de_salida_500_witness:
  "execute_call (sesion_crear None) llamada_ejemplo
     = (Inr (), sent (sesion_crear None) llamada_ejemplo)
   \<and> execute_first_NroCta_Mensaje (sent (sesion_crear None) llamada_ejemplo)
     = (Inr None, sent (sent (sesion_crear None) llamada_ejemplo) SELECT_Out_NroCta_Out_Message)
   \<and> fst (insertar_nueva_cuenta_sp lower_latin1 (sesion_crear None) datos_ejemplo)
     = Inl (Exception no_out_select)
   \<and> http_status Crear
       (fst (crear_nueva_cuenta lower_latin1 (sesion_crear None) datos_ejemplo)
          :: pystr outcome) = 500
   \<and> execute_call (sesion_actualizar None) llamada_actualizar_ejemplo
     = (Inr (), sent (sesion_actualizar None) llamada_actualizar_ejemplo)
   \<and> execute_first_Mensaje (sent (sesion_actualizar None) llamada_actualizar_ejemplo)
     = (Inr None, sent (sent (sesion_actualizar None) llamada_actualizar_ejemplo)
          SELECT_Out_Message)
   \<and> fst (actualizar_estado_cuenta_sp lower_latin1 (sesion_actualizar None)
        actualizacion_ejemplo) = Inl (Exception no_mensaje_estado)
   \<and> http_status Actualizar
       (fst (actualizar_estado lower_latin1 (sesion_actualizar None) actualizacion_ejemplo)
          :: pystr outcome) = 500"
proof -
  note h1 = ejemplo_call [of None]
  note h2 = ejemplo_out [of None]
  note h3 = ejemplo_call_actualizar [of None]
  note h4 = ejemplo_out_actualizar [of None]
  note t = sin_fila_de_salida_500 [of "sesion_crear None" datos_ejemplo _ _ _
      "sesion_actualizar None" actualizacion_ejemplo]
  note c = t [THEN conjunct1, rule_format, OF conjI,
      OF h1 [unfolded llamada_ejemplo_def] h2 [unfolded llamada_ejemplo_def], of lower_latin1]
  note u = t [THEN conjunct2, rule_format, OF conjI,
      OF h3 [unfolded llamada_actualizar_ejemplo_def]
         h4 [unfolded llamada_actualizar_ejemplo_def], of lower_latin1]
  have a: "fst (insertar_nueva_cuenta_sp lower_latin1 (sesion_crear None) datos_ejemplo)
     = Inl (Exception no_out_select)"
    by (simp add: c [THEN conjunct1])
  have b: "http_status Crear
       (fst (crear_nueva_cuenta lower_latin1 (sesion_crear None) datos_ejemplo)
          :: pystr outcome) = 500"
    by (rule c [THEN conjunct2, THEN conjunct2, THEN conjunct2])
  have a': "fst (actualizar_estado_cuenta_sp lower_latin1 (sesion_actualizar None)
        actualizacion_ejemplo) = Inl (Exception no_mensaje_estado)"
    by (simp add: u [THEN conjunct1])
  have b': "http_status Actualizar
       (fst (actualizar_estado lower_latin1 (sesion_actualizar None) actualizacion_ejemplo)
          :: pystr outcome) = 500"
    by (rule u [THEN conjunct2, THEN conjunct2, THEN conjunct2])
  from h1 h2 h3 h4 a b a' b' show ?thesis by blast
qed

subsection \<open>Listing accounts\<close>

lemma clean_cod_usu_simps:
  "clean_cod_usu None = None"
  "clean_cod_usu (Some []) = None"
  "c \<noteq> [] \<Longrightarrow> clean_cod_usu (Some c) = Some c"
  by (simp_all add: clean_cod_usu_def truthy_def)

text \<open>
  C4. A listing call with a filter \<open>Some c\<close>, \<open>c\<close> not empty, for which the procedure
  (called with that same filter) yields no row, returns under status 200 the envelope with
  \<open>codigo = LIST-OK-EMPTY\<close> and \<open>result = []\<close>; nothing is raised and nothing rolled
  back.
\<close>

theorem listar_vacio_con_filtro:
  assumes filtro: "c \<noteq> []"
      and vacio: "execute_mappings_all session (Some c) = (Inr [], s1)"
  shows "listar_cuentas model_validate session (Some c) =
           (Returned \<lparr>mensaje = ascii ''No se encontraron cuentas para el usuario: '' @ c
                                   @ ascii ''.'',
                      codigo = Some (ascii ''LIST-OK-EMPTY''),
                      status_code = 200,
                      result = Some []\<rparr>, s1, [])
       \<and> http_status Listar (fst (listar_cuentas model_validate session (Some c))) = 200"
  by (simp add: listar_cuentas_def listar_cuentas_sp_def listar_cuentas_sp_try_def
      clean_cod_usu_simps filtro vacio except_rollback_raise_def format_optional_def
      HTTP_200_OK_def)

theorem listar_vacio_con_filtro_witness:
  "ascii ''U001'' \<noteq> []
   \<and> execute_mappings_all (sesion_listar (Inr [])) (Some (ascii ''U001''))
     = (Inr [], sent (sesion_listar (Inr [])) (CALL_sp_ListarCuentas (Some (ascii ''U001''))))
   \<and> fst (listar_cuentas identity_validate (sesion_listar (Inr [])) (Some (ascii ''U001'')))
     = Returned \<lparr>mensaje = ascii ''No se encontraron cuentas para el usuario: U001.'',
                 codigo = Some (ascii ''LIST-OK-EMPTY''),
                 status_code = 200,
                 result = Some []\<rparr>"
proof -
  have h1: "ascii ''U001'' \<noteq> []"
    by (simp add: ascii_def)
  have h2: "execute_mappings_all (sesion_listar (Inr [])) (Some (ascii ''U001''))
     = (Inr [], sent (sesion_listar (Inr [])) (CALL_sp_ListarCuentas (Some (ascii ''U001''))))"
    by (simp add: execute_mappings_all_eq)
  note t = listar_vacio_con_filtro [OF h1 h2, of identity_validate, THEN conjunct1]
  have "fst (listar_cuentas identity_validate (sesion_listar (Inr [])) (Some (ascii ''U001'')))
     = Returned \<lparr>mensaje = ascii ''No se encontraron cuentas para el usuario: U001.'',
                 codigo = Some (ascii ''LIST-OK-EMPTY''),
                 status_code = 200,
                 result = Some []\<rparr>"
    unfolding t by (simp add: ascii_def)
  with h1 h2 show ?thesis by blast
qed

lemma listar_sp_sends_None:
  "c = None \<or> c = Some [] \<Longrightarrow>
     take (Suc (length (trail session))) (trail (snd (listar_cuentas_sp mv session c)))
       = trail session @ [Execute (CALL_sp_ListarCuentas None)]"
  by (auto simp: listar_cuentas_sp_def listar_cuentas_sp_try_def execute_mappings_all_eq
      except_rollback_raise_def clean_cod_usu_simps split: sum.splits)

lemma listar_session:
  "fst (snd (listar_cuentas mv session c)) = snd (listar_cuentas_sp mv session c)"
  by (cases "listar_cuentas_sp mv session c")
     (auto simp: listar_cuentas_def split: sum.splits)

text \<open>
  C5. The service turns the filter \<open>''\<close> into \<open>None\<close>, as it does \<open>None\<close> itself, and the
  first statement it sends, for the one as for the other, is the call of the procedure with
  the parameter \<open>None\<close>. On every session and every row validation, the listing service
  and the listing endpoint then give the same result, the same session and the same console
  for the filter \<open>''\<close> as for the filter \<open>None\<close>, and the envelope returned for \<open>''\<close>
  never has the code of the empty-result case.
\<close>

theorem listar_filtro_vacio_es_sin_filtro:
  "clean_cod_usu (Some []) = None \<and> clean_cod_usu None = None
   \<and> take (Suc (length (trail session)))
        (trail (snd (listar_cuentas_sp model_validate session (Some []))))
       = trail session @ [Execute (CALL_sp_ListarCuentas None)]
   \<and> take (Suc (length (trail session)))
        (trail (fst (snd (listar_cuentas model_validate session (Some [])))))
       = trail session @ [Execute (CALL_sp_ListarCuentas None)]
   \<and> listar_cuentas_sp model_validate session (Some []) =
       listar_cuentas_sp model_validate session None
   \<and> listar_cuentas model_validate session (Some []) =
       listar_cuentas model_validate session None
   \<and> (\<forall>r. fst (listar_cuentas model_validate session (Some [])) = Returned r
          \<longrightarrow> codigo r = Some (ascii ''LIST-OK''))"
proof -
  have sp: "listar_cuentas_sp model_validate session (Some []) =
     listar_cuentas_sp model_validate session None"
    by (simp add: listar_cuentas_sp_def clean_cod_usu_simps)
  have ep: "listar_cuentas model_validate session (Some []) =
       listar_cuentas model_validate session None"
    by (simp add: listar_cuentas_def sp split: prod.splits sum.splits)
  have cod: "\<forall>r. fst (listar_cuentas model_validate session (Some [])) = Returned r
          \<longrightarrow> codigo r = Some (ascii ''LIST-OK'')"
    by (auto simp: listar_cuentas_def split: prod.splits sum.splits)
  have sent_sp: "take (Suc (length (trail session)))
        (trail (snd (listar_cuentas_sp model_validate session (Some []))))
       = trail session @ [Execute (CALL_sp_ListarCuentas None)]"
    by (simp add: listar_sp_sends_None)
  have sent_ep: "take (Suc (length (trail session)))
        (trail (fst (snd (listar_cuentas model_validate session (Some [])))))
       = trail session @ [Execute (CALL_sp_ListarCuentas None)]"
    by (simp add: listar_session listar_sp_sends_None)
  from sp ep cod sent_sp sent_ep show ?thesis
    by (simp add: clean_cod_usu_simps)
qed

theorem listar_filtro_vacio_es_sin_filtro_witness:
  "trail (snd (listar_cuentas_sp identity_validate (sesion_listar (Inr [])) (Some [])))
     = [Execute (CALL_sp_ListarCuentas None)]
   \<and> fst (listar_cuentas identity_validate (sesion_listar (Inr [])) (Some []))
     = Returned \<lparr>mensaje = ascii ''Consulta exitosa. Se encontraron 0 cuentas.'',
                 codigo = Some (ascii ''LIST-OK''), status_code = 200, result = Some []\<rparr>
   \<and> fst (listar_cuentas identity_validate (sesion_listar (Inr [])) None)
     = Returned \<lparr>mensaje = ascii ''Consulta exitosa. Se encontraron 0 cuentas.'',
                 codigo = Some (ascii ''LIST-OK''), status_code = 200, result = Some []\<rparr>
   \<and> codigo \<lparr>mensaje = ascii ''Consulta exitosa. Se encontraron 0 cuentas.'',
                 codigo = Some (ascii ''LIST-OK''), status_code = 200,
                 result = Some ([] :: pystr list)\<rparr> = Some (ascii ''LIST-OK'')"
proof -
  let ?s = "sesion_listar (Inr []) :: (int, pystr) Session"
  let ?r = "\<lparr>mensaje = ascii ''Consulta exitosa. Se encontraron 0 cuentas.'',
                 codigo = Some (ascii ''LIST-OK''), status_code = 200,
                 result = Some ([] :: pystr list)\<rparr>"
  note t = listar_filtro_vacio_es_sin_filtro [of ?s identity_validate]
  have a: "fst (listar_cuentas identity_validate ?s None) = Returned ?r"
    by (simp add: listar_cuentas_def listar_cuentas_sp_def listar_cuentas_sp_try_def
        clean_cod_usu_simps execute_mappings_all_eq except_rollback_raise_def
        HTTP_200_OK_def str_nat.simps ascii_def)
  have b: "fst (listar_cuentas identity_validate ?s (Some [])) = Returned ?r"
    using a
    by (simp add: t [THEN conjunct2, THEN conjunct2, THEN conjunct2, THEN conjunct2,
          THEN conjunct2, THEN conjunct1])
  have c: "codigo ?r = Some (ascii ''LIST-OK'')"
    by (rule t [THEN conjunct2, THEN conjunct2, THEN conjunct2, THEN conjunct2,
          THEN conjunct2, THEN conjunct2, rule_format, OF b])
  have tr: "trail (snd (listar_cuentas_sp identity_validate ?s (Some [])))
     = [Execute (CALL_sp_ListarCuentas None)]"
    by (simp add: listar_cuentas_sp_def listar_cuentas_sp_try_def clean_cod_usu_simps
        execute_mappings_all_eq except_rollback_raise_def identity_validate_def)
  from a b c tr show ?thesis by blast
qed

subsection \<open>Unexpected exceptions\<close>

lemma sesion_falla_fields [simp]:
  "trail (sesion_falla e) = []"
  "answer_call (sesion_falla e) t = Some e"
  "answer_listar (sesion_falla e) t = Inl e"
  by (simp_all add: sesion_falla_def)











subsection \<open>Rollback\<close>

lemma no_rollback_append: "Rollback \<notin> set evs \<Longrightarrow> no_rollback t (t @ evs)"
  by (simp add: no_rollback_def)

lemma rollback_last_append: "Rollback \<notin> set evs \<Longrightarrow> rollback_last t (t @ evs @ [Rollback])"
  by (simp add: rollback_last_def no_rollback_def butlast_append)

lemma except_rollback_raise_trail:
  assumes "no_rollback t (trail (snd r))"
  shows "(\<forall>e. fst (except_rollback_raise r) = Inl e
            \<longrightarrow> fst r = Inl e \<and> rollback_last t (trail (snd (except_rollback_raise r))))
       \<and> (\<forall>v. fst (except_rollback_raise r) = Inr v
            \<longrightarrow> fst r = Inr v \<and> no_rollback t (trail (snd (except_rollback_raise r))))"
proof (cases r)
  case (Pair a s)
  with assms show ?thesis
    by (cases a) (simp_all add: except_rollback_raise_def rollback_last_def)
qed

lemma insertar_try_no_rollback:
  "no_rollback (trail s) (trail (snd (insertar_nueva_cuenta_sp_try lower s d)))"
  by (simp add: insertar_nueva_cuenta_sp_try_def execute_call_eq
      execute_first_NroCta_Mensaje_eq no_rollback_def split: option.splits sum.splits)

lemma listar_try_no_rollback:
  "no_rollback (trail s) (trail (snd (listar_cuentas_sp_try mv s p)))"
  by (simp add: listar_cuentas_sp_try_def execute_mappings_all_eq no_rollback_def
      split: sum.splits)

lemma actualizar_try_no_rollback:
  "no_rollback (trail s) (trail (snd (actualizar_estado_cuenta_sp_try lower s d)))"
  by (simp add: actualizar_estado_cuenta_sp_try_def execute_call_eq
      execute_first_Mensaje_eq no_rollback_def split: option.splits sum.splits)

lemma insertar_con_fila:
  assumes "Mensaje row = Some msg"
  shows "insertar_nueva_cuenta_sp lower (sesion_crear (Some row)) datos_ejemplo =
     (if \<not> startswith (lower msg) exito
      then (Inl (ValueError msg),
            rollback (sent (sent (sesion_crear (Some row)) llamada_ejemplo)
              SELECT_Out_NroCta_Out_Message))
      else (Inr \<lparr>res_NroCta = NroCta row, res_MensajeSP = msg\<rparr>,
            sent (sent (sesion_crear (Some row)) llamada_ejemplo)
              SELECT_Out_NroCta_Out_Message))"
  using insertar_try_mensaje [OF ejemplo_call [unfolded llamada_ejemplo_def]
      ejemplo_out [unfolded llamada_ejemplo_def] assms, of lower]
  by (simp add: insertar_nueva_cuenta_sp_def except_rollback_raise_def llamada_ejemplo_def)

lemma ejemplo_insertar_error:
  "insertar_nueva_cuenta_sp lower_latin1 (sesion_crear (Some fila_error)) datos_ejemplo =
     (Inl (ValueError error_usuario),
      rollback (sent (sent (sesion_crear (Some fila_error)) llamada_ejemplo)
        SELECT_Out_NroCta_Out_Message))"
proof -
  have m: "Mensaje fila_error = Some error_usuario"
    by (simp add: fila_error_def)
  show ?thesis
    by (simp add: insertar_con_fila [OF m] error_usuario_not_exito)
qed

lemma ejemplo_insertar_exito:
  "insertar_nueva_cuenta_sp lower_latin1 (sesion_crear (Some fila_exito)) datos_ejemplo =
     (Inr \<lparr>res_NroCta = Some (ascii ''0001''), res_MensajeSP = EXITO_creada\<rparr>,
      sent (sent (sesion_crear (Some fila_exito)) llamada_ejemplo)
        SELECT_Out_NroCta_Out_Message)"
proof -
  have m: "Mensaje fila_exito = Some EXITO_creada"
    by (simp add: fila_exito_def)
  have n: "NroCta fila_exito = Some (ascii ''0001'')"
    by (simp add: fila_exito_def)
  show ?thesis
    by (simp add: insertar_con_fila [OF m] EXITO_creada_is_exito n)
qed

lemma ejemplo_insertar_falla:
  "insertar_nueva_cuenta_sp lower_latin1 (sesion_falla conexion_perdida) datos_ejemplo =
     (Inl conexion_perdida, rollback (sent (sesion_falla conexion_perdida) llamada_ejemplo))"
  by (simp add: insertar_nueva_cuenta_sp_def insertar_nueva_cuenta_sp_try_def execute_call_eq
      except_rollback_raise_def llamada_ejemplo_def)

lemma ejemplo_listar_falla:
  "listar_cuentas_sp identity_validate (sesion_falla interbloqueo) (Some (ascii ''U001'')) =
     (Inl interbloqueo,
      rollback (sent (sesion_falla interbloqueo) (CALL_sp_ListarCuentas (Some (ascii ''U001'')))))"
  by (simp add: listar_cuentas_sp_def listar_cuentas_sp_try_def execute_mappings_all_eq
      except_rollback_raise_def clean_cod_usu_def truthy_def ascii_def)

lemma ejemplo_listar_dos:
  "listar_cuentas_sp identity_validate (sesion_listar (Inr [ascii ''0001'', ascii ''0002'']))
       None =
     (Inr [ascii ''0001'', ascii ''0002''],
      sent (sesion_listar (Inr [ascii ''0001'', ascii ''0002''])) (CALL_sp_ListarCuentas None))"
  by (simp add: listar_cuentas_sp_def listar_cuentas_sp_try_def execute_mappings_all_eq
      except_rollback_raise_def clean_cod_usu_simps identity_validate_def)

lemma ejemplo_actualizar_no_encontrada:
  "actualizar_estado_cuenta_sp lower_latin1
       (sesion_actualizar (Some (OutMensaje (Some no_encontrada)))) actualizacion_ejemplo =
     (Inl (ValueError no_encontrada),
      rollback (sent (sent (sesion_actualizar (Some (OutMensaje (Some no_encontrada))))
        llamada_actualizar_ejemplo) SELECT_Out_Message))"
proof -
  have m: "Mensaje_of (OutMensaje (Some no_encontrada)) = Some no_encontrada"
    by simp
  show ?thesis
    using actualizar_try_mensaje [OF
        ejemplo_call_actualizar [unfolded llamada_actualizar_ejemplo_def]
        ejemplo_out_actualizar [unfolded llamada_actualizar_ejemplo_def] m,
        where lower = lower_latin1]
    by (simp add: actualizar_estado_cuenta_sp_def except_rollback_raise_def
        llamada_actualizar_ejemplo_def no_encontrada_not_exito)
qed

text \<open>
  C8. Each service raises exactly the exception its \<open>try\<close> block raised, and then the
  trail of the session ends with a rollback, the only one since the call began; when the
  service returns a result, that is the result of the \<open>try\<close> block and no rollback was
  done since the call began.
\<close>

theorem rollback_antes_de_relanzar:
  "(\<forall>e. fst (insertar_nueva_cuenta_sp lower s d) = Inl e
       \<longrightarrow> fst (insertar_nueva_cuenta_sp_try lower s d) = Inl e
         \<and> rollback_last (trail s) (trail (snd (insertar_nueva_cuenta_sp lower s d))))
   \<and> (\<forall>r. fst (insertar_nueva_cuenta_sp lower s d) = Inr r
       \<longrightarrow> fst (insertar_nueva_cuenta_sp_try lower s d) = Inr r
         \<and> no_rollback (trail s) (trail (snd (insertar_nueva_cuenta_sp lower s d))))
   \<and> (\<forall>e. fst (listar_cuentas_sp mv s c) = Inl e
       \<longrightarrow> fst (listar_cuentas_sp_try mv s (clean_cod_usu c)) = Inl e
         \<and> rollback_last (trail s) (trail (snd (listar_cuentas_sp mv s c))))
   \<and> (\<forall>r. fst (listar_cuentas_sp mv s c) = Inr r
       \<longrightarrow> fst (listar_cuentas_sp_try mv s (clean_cod_usu c)) = Inr r
         \<and> no_rollback (trail s) (trail (snd (listar_cuentas_sp mv s c))))
   \<and> (\<forall>e. fst (actualizar_estado_cuenta_sp lower s u) = Inl e
       \<longrightarrow> fst (actualizar_estado_cuenta_sp_try lower s u) = Inl e
         \<and> rollback_last (trail s) (trail (snd (actualizar_estado_cuenta_sp lower s u))))
   \<and> (\<forall>r. fst (actualizar_estado_cuenta_sp lower s u) = Inr r
       \<longrightarrow> fst (actualizar_estado_cuenta_sp_try lower s u) = Inr r
         \<and> no_rollback (trail s) (trail (snd (actualizar_estado_cuenta_sp lower s u))))"
  using except_rollback_raise_trail [OF insertar_try_no_rollback [of s lower d]]
    except_rollback_raise_trail [OF listar_try_no_rollback [of s mv "clean_cod_usu c"]]
    except_rollback_raise_trail [OF actualizar_try_no_rollback [of s lower u]]
  unfolding insertar_nueva_cuenta_sp_def listar_cuentas_sp_def actualizar_estado_cuenta_sp_def
    Let_def
  by blast

theorem rollback_antes_de_relanzar_witness:
  "fst (insertar_nueva_cuenta_sp lower_latin1 (sesion_crear (Some fila_error)) datos_ejemplo)
     = Inl (ValueError error_usuario)
   \<and> trail (snd (insertar_nueva_cuenta_sp lower_latin1 (sesion_crear (Some fila_error))
        datos_ejemplo))
     = [Execute llamada_ejemplo, Execute SELECT_Out_NroCta_Out_Message, Rollback]
   \<and> rollback_last (trail (sesion_crear (Some fila_error)))
       (trail (snd (insertar_nueva_cuenta_sp lower_latin1 (sesion_crear (Some fila_error))
          datos_ejemplo)))
   \<and> fst (insertar_nueva_cuenta_sp lower_latin1 (sesion_falla conexion_perdida) datos_ejemplo)
     = Inl conexion_perdida
   \<and> trail (snd (insertar_nueva_cuenta_sp lower_latin1 (sesion_falla conexion_perdida)
        datos_ejemplo))
     = [Execute llamada_ejemplo, Rollback]
   \<and> rollback_last (trail (sesion_falla conexion_perdida))
       (trail (snd (insertar_nueva_cuenta_sp lower_latin1 (sesion_falla conexion_perdida)
          datos_ejemplo)))
   \<and> fst (insertar_nueva_cuenta_sp lower_latin1 (sesion_crear (Some fila_exito)) datos_ejemplo)
     = Inr \<lparr>res_NroCta = Some (ascii ''0001''), res_MensajeSP = EXITO_creada\<rparr>
   \<and> trail (snd (insertar_nueva_cuenta_sp lower_latin1 (sesion_crear (Some fila_exito))
        datos_ejemplo))
     = [Execute llamada_ejemplo, Execute SELECT_Out_NroCta_Out_Message]
   \<and> no_rollback (trail (sesion_crear (Some fila_exito)))
       (trail (snd (insertar_nueva_cuenta_sp lower_latin1 (sesion_crear (Some fila_exito))
          datos_ejemplo)))
   \<and> fst (listar_cuentas_sp identity_validate (sesion_falla interbloqueo)
        (Some (ascii ''U001''))) = Inl interbloqueo
   \<and> rollback_last (trail (sesion_falla interbloqueo))
       (trail (snd (listar_cuentas_sp identity_validate (sesion_falla interbloqueo)
          (Some (ascii ''U001'')))))
   \<and> fst (listar_cuentas_sp identity_validate
        (sesion_listar (Inr [ascii ''0001'', ascii ''0002''])) None)
     = Inr [ascii ''0001'', ascii ''0002'']
   \<and> no_rollback (trail (sesion_listar (Inr [ascii ''0001'', ascii ''0002''])))
       (trail (snd (listar_cuentas_sp identity_validate
          (sesion_listar (Inr [ascii ''0001'', ascii ''0002''])) None)))
   \<and> fst (actualizar_estado_cuenta_sp lower_latin1
        (sesion_actualizar (Some (OutMensaje (Some no_encontrada)))) actualizacion_ejemplo)
     = Inl (ValueError no_encontrada)
   \<and> rollback_last (trail (sesion_actualizar (Some (OutMensaje (Some no_encontrada)))))
       (trail (snd (actualizar_estado_cuenta_sp lower_latin1
          (sesion_actualizar (Some (OutMensaje (Some no_encontrada)))) actualizacion_ejemplo)))"
proof -
  note T = rollback_antes_de_relanzar [where lower = lower_latin1 and mv = identity_validate
      and d = datos_ejemplo and u = actualizacion_ejemplo]
  have a1: "fst (insertar_nueva_cuenta_sp lower_latin1 (sesion_crear (Some fila_error))
      datos_ejemplo) = Inl (ValueError error_usuario)"
    by (simp add: ejemplo_insertar_error)
  have a2: "trail (snd (insertar_nueva_cuenta_sp lower_latin1 (sesion_crear (Some fila_error))
        datos_ejemplo))
     = [Execute llamada_ejemplo, Execute SELECT_Out_NroCta_Out_Message, Rollback]"
    by (simp add: ejemplo_insertar_error)
  note a3 = T [of "sesion_crear (Some fila_error)", THEN conjunct1, rule_format, OF a1,
      THEN conjunct2]
  have b1: "fst (insertar_nueva_cuenta_sp lower_latin1 (sesion_falla conexion_perdida)
      datos_ejemplo) = Inl conexion_perdida"
    by (simp add: ejemplo_insertar_falla)
  have b2: "trail (snd (insertar_nueva_cuenta_sp lower_latin1 (sesion_falla conexion_perdida)
        datos_ejemplo)) = [Execute llamada_ejemplo, Rollback]"
    by (simp add: ejemplo_insertar_falla)
  note b3 = T [of "sesion_falla conexion_perdida", THEN conjunct1, rule_format, OF b1,
      THEN conjunct2]
  have c1: "fst (insertar_nueva_cuenta_sp lower_latin1 (sesion_crear (Some fila_exito))
      datos_ejemplo) = Inr \<lparr>res_NroCta = Some (ascii ''0001''), res_MensajeSP = EXITO_creada\<rparr>"
    by (simp add: ejemplo_insertar_exito)
  have c2: "trail (snd (insertar_nueva_cuenta_sp lower_latin1 (sesion_crear (Some fila_exito))
        datos_ejemplo))
     = [Execute llamada_ejemplo, Execute SELECT_Out_NroCta_Out_Message]"
    by (simp add: ejemplo_insertar_exito)
  note c3 = T [of "sesion_crear (Some fila_exito)", THEN conjunct2, THEN conjunct1, rule_format,
      OF c1, THEN conjunct2]
  have d1: "fst (listar_cuentas_sp identity_validate (sesion_falla interbloqueo)
        (Some (ascii ''U001''))) = Inl interbloqueo"
    by (simp add: ejemplo_listar_falla)
  note d3 = T [of "sesion_falla interbloqueo" "Some (ascii ''U001'')", THEN conjunct2,
      THEN conjunct2, THEN conjunct1, rule_format, OF d1, THEN conjunct2]
  have e1: "fst (listar_cuentas_sp identity_validate
        (sesion_listar (Inr [ascii ''0001'', ascii ''0002''])) None)
     = Inr [ascii ''0001'', ascii ''0002'']"
    by (simp add: ejemplo_listar_dos)
  note e3 = T [of "sesion_listar (Inr [ascii ''0001'', ascii ''0002''])" None, THEN conjunct2,
      THEN conjunct2, THEN conjunct2, THEN conjunct1, rule_format, OF e1, THEN conjunct2]
  have f1: "fst (actualizar_estado_cuenta_sp lower_latin1
        (sesion_actualizar (Some (OutMensaje (Some no_encontrada)))) actualizacion_ejemplo)
     = Inl (ValueError no_encontrada)"
    by (simp add: ejemplo_actualizar_no_encontrada)
  note f3 = T [of "sesion_actualizar (Some (OutMensaje (Some no_encontrada)))", THEN conjunct2,
      THEN conjunct2, THEN conjunct2, THEN conjunct2, THEN conjunct1, rule_format, OF f1,
      THEN conjunct2]
  from a1 a2 a3 b1 b2 b3 c1 c2 c3 d1 d3 e1 e3 f1 f3 show ?thesis
    by blast
qed

subsection \<open>The body of every response\<close>

lemma model_dump_is_envelope:
  "is_envelope (model_dump r)"
  "envelope_status_code (model_dump r) = Some (status_code r)"
  by (simp_all add: is_envelope_def envelope_status_code_def model_dump_def
      split: option.splits)

lemma detail_body:
  "\<not> is_envelope [(''detail'', PDict d)]"
  "detail_of [(''detail'', PDict d)] = Some d"
  by (simp_all add: is_envelope_def detail_of_def)

lemma responds_returned:
  assumes "route_status_code op = ok" "status_code r = ok"
  shows "responds op (Returned r) ok errs"
  using assms by (simp add: responds_def envelope_response_def model_dump_is_envelope)

lemma responds_raised:
  assumes "c \<in> set errs" "status_code r = c"
  shows "responds op (HTTPException c (model_dump r)) ok errs"
  using assms
  by (simp add: responds_def detail_response_def detail_body model_dump_is_envelope)

lemma crear_responds:
  "responds Crear (fst (crear_nueva_cuenta lower s d)) 201 [400, 500]"
proof (cases "insertar_nueva_cuenta_sp lower s d")
  case (Pair res s')
  then show ?thesis
    by (cases res)
       (simp_all add: crear_nueva_cuenta_def responds_returned responds_raised
          HTTP_201_CREATED_def HTTP_400_BAD_REQUEST_def HTTP_500_INTERNAL_SERVER_ERROR_def)
qed

lemma listar_responds:
  "responds Listar (fst (listar_cuentas mv s c)) 200 [500]"
proof (cases "listar_cuentas_sp mv s c")
  case (Pair res s')
  then show ?thesis
    by (cases res)
       (simp_all add: listar_cuentas_def responds_returned responds_raised
          HTTP_200_OK_def HTTP_500_INTERNAL_SERVER_ERROR_def)
qed

lemma actualizar_responds:
  "responds Actualizar (fst (actualizar_estado lower s d)) 200 [400, 404, 500]"
proof (cases "actualizar_estado_cuenta_sp lower s d")
  case (Pair res s')
  then show ?thesis
    by (cases res)
       (simp_all add: actualizar_estado_def responds_returned responds_raised
          HTTP_200_OK_def HTTP_400_BAD_REQUEST_def HTTP_404_NOT_FOUND_def
          HTTP_500_INTERNAL_SERVER_ERROR_def Let_def)
qed

text \<open>
  C7. Every response of the three endpoints is of one of two forms. On success (201 for
  the creation, 200 for the listing and the update) the body is the envelope
  \<open>{mensaje: string, codigo: string|null, status_code: int, result: array|null}\<close> and its
  \<open>status_code\<close> is the HTTP status. On failure (400 or 500 for the creation, 500 for the
  listing, 400, 404 or 500 for the update) the body is not the envelope: it is the object
  \<open>{"detail": envelope}\<close>, whose envelope has that shape and states the HTTP status.
\<close>

theorem sobre_o_detalle_en_toda_respuesta:
  "responds Crear (fst (crear_nueva_cuenta lower s d) :: 'dto outcome) 201 [400, 500]
   \<and> responds Listar (fst (listar_cuentas mv s c) :: 'dto outcome) 200 [500]
   \<and> responds Actualizar (fst (actualizar_estado lower s u) :: 'dto outcome) 200
       [400, 404, 500]"
  by (simp add: crear_responds listar_responds actualizar_responds)

lemma ejemplo_crear_error:
  "fst (crear_nueva_cuenta lower_latin1 (sesion_crear (Some fila_error)) datos_ejemplo) =
     HTTPException 400
       [(''mensaje'', PStr error_usuario), (''codigo'', PStr []), (''status_code'', PInt 400),
        (''result'', PNone)]"
  by (simp add: crear_nueva_cuenta_def ejemplo_insertar_error model_dump_def
      HTTP_400_BAD_REQUEST_def)

lemma ejemplo_crear_exito:
  "fst (crear_nueva_cuenta lower_latin1 (sesion_crear (Some fila_exito)) datos_ejemplo) =
     Returned \<lparr>mensaje = EXITO_creada, codigo = Some (ascii ''0001''), status_code = 201,
       result = None\<rparr>"
  by (simp add: crear_nueva_cuenta_def ejemplo_insertar_exito HTTP_201_CREATED_def)

text \<open>
  The failure responses do not have the shape of the envelope: the body of the 400 of a
  creation refused by the procedure is an object with the single key \<open>detail\<close>.
\<close>

theorem sobre_en_toda_respuesta_counterexample:
  "http_status Crear
     (fst (crear_nueva_cuenta lower_latin1 (sesion_crear (Some fila_error)) datos_ejemplo)
        :: pystr outcome) = 400
   \<and> response_body
     (fst (crear_nueva_cuenta lower_latin1 (sesion_crear (Some fila_error)) datos_ejemplo)
        :: pystr outcome)
     = [(''detail'',
         PDict [(''mensaje'', PStr error_usuario), (''codigo'', PStr []),
                (''status_code'', PInt 400), (''result'', PNone)])]
   \<and> \<not> is_envelope (response_body
     (fst (crear_nueva_cuenta lower_latin1 (sesion_crear (Some fila_error)) datos_ejemplo)
        :: pystr outcome))"
  by (simp add: ejemplo_crear_error detail_body)

theorem sobre_o_detalle_en_toda_respuesta_witness:
  "responds Crear
     (fst (crear_nueva_cuenta lower_latin1 (sesion_crear (Some fila_error)) datos_ejemplo)
        :: pystr outcome) 201 [400, 500]
   \<and> http_status Crear
     (fst (crear_nueva_cuenta lower_latin1 (sesion_crear (Some fila_error)) datos_ejemplo)
        :: pystr outcome) = 400
   \<and> detail_response Crear
     (fst (crear_nueva_cuenta lower_latin1 (sesion_crear (Some fila_error)) datos_ejemplo)
        :: pystr outcome)
   \<and> responds Crear
     (fst (crear_nueva_cuenta lower_latin1 (sesion_crear (Some fila_exito)) datos_ejemplo)
        :: pystr outcome) 201 [400, 500]
   \<and> http_status Crear
     (fst (crear_nueva_cuenta lower_latin1 (sesion_crear (Some fila_exito)) datos_ejemplo)
        :: pystr outcome) = 201
   \<and> envelope_response Crear
     (fst (crear_nueva_cuenta lower_latin1 (sesion_crear (Some fila_exito)) datos_ejemplo)
        :: pystr outcome)
   \<and> responds Listar
     (fst (listar_cuentas identity_validate (sesion_crear (Some fila_error)) None)) 200 [500]
   \<and> responds Actualizar
     (fst (actualizar_estado lower_latin1 (sesion_crear (Some fila_error))
        actualizacion_ejemplo) :: pystr outcome) 200 [400, 404, 500]"
proof -
  let ?e = "fst (crear_nueva_cuenta lower_latin1 (sesion_crear (Some fila_error))
              datos_ejemplo) :: pystr outcome"
  let ?x = "fst (crear_nueva_cuenta lower_latin1 (sesion_crear (Some fila_exito))
              datos_ejemplo) :: pystr outcome"
  note T = sobre_o_detalle_en_toda_respuesta [of lower_latin1 "sesion_crear (Some fila_error)"
      datos_ejemplo identity_validate None actualizacion_ejemplo]
  note X = sobre_o_detalle_en_toda_respuesta [of lower_latin1 "sesion_crear (Some fila_exito)"
      datos_ejemplo identity_validate None actualizacion_ejemplo, THEN conjunct1]
  have re: "responds Crear ?e 201 [400, 500]"
    by (rule T [THEN conjunct1])
  have se: "http_status Crear ?e = 400"
    by (simp add: ejemplo_crear_error)
  have de: "detail_response Crear ?e"
    using re se by (simp add: responds_def)
  have rx: "responds Crear ?x 201 [400, 500]"
    by (rule X)
  have sx: "http_status Crear ?x = 201"
    by (simp add: ejemplo_crear_exito HTTP_201_CREATED_def)
  have dx: "envelope_response Crear ?x"
    using rx sx by (simp add: responds_def)
  from re se de rx sx dx T [THEN conjunct2] show ?thesis
    by blast
qed

end
